theory Spec2Isabelle
  imports Main "HOL-Library.Word" "HOL-Library.Sublist"
begin

section \<open>JavaScript strings\<close>

text \<open>
  A JavaScript string is a sequence of 16-bit code units. String literals of the source are
  written with \<open>lit\<close>, which maps each (ASCII) character to its code unit.
\<close>

type_synonym code_unit = "16 word"
type_synonym jsstring = "code_unit list"

definition lit :: "string \<Rightarrow> jsstring" where
  "lit s = map of_char s"

text \<open>
  \<open>String.prototype.trim\<close> removes, at both ends, the code points that ECMAScript calls
  WhiteSpace or LineTerminator. All of them lie in the basic plane, so each is one code unit.
\<close>

definition isLineTerminator :: "code_unit \<Rightarrow> bool" where
  "isLineTerminator c \<longleftrightarrow> c = 0x000A \<or> c = 0x000D \<or> c = 0x2028 \<or> c = 0x2029"

definition isWhiteSpace :: "code_unit \<Rightarrow> bool" where
  "isWhiteSpace c \<longleftrightarrow>
     c = 0x0009 \<or> c = 0x000B \<or> c = 0x000C \<or> c = 0x0020 \<or> c = 0x00A0 \<or> c = 0xFEFF \<or>
     c = 0x1680 \<or> (0x2000 \<le> c \<and> c \<le> 0x200A) \<or> c = 0x202F \<or> c = 0x205F \<or> c = 0x3000"

definition isTrimmable :: "code_unit \<Rightarrow> bool" where
  "isTrimmable c \<longleftrightarrow> isWhiteSpace c \<or> isLineTerminator c"

definition trim :: "jsstring \<Rightarrow> jsstring" where
  "trim s = rev (dropWhile isTrimmable (rev (dropWhile isTrimmable s)))"

text \<open>
  \<open>a || b\<close> where \<open>a\<close> is a string or \<open>undefined\<close>: both \<open>undefined\<close> and the empty
  string are falsy. \<open>or_string\<close> is the form with a string on the right, \<open>or_null\<close> the form
  \<open>a || null\<close>.
\<close>

definition or_string :: "jsstring option \<Rightarrow> jsstring \<Rightarrow> jsstring" where
  "or_string a b = (case a of None \<Rightarrow> b | Some s \<Rightarrow> if s = [] then b else s)"

definition or_null :: "jsstring option \<Rightarrow> jsstring option" where
  "or_null a = (case a of None \<Rightarrow> None | Some s \<Rightarrow> if s = [] then None else Some s)"

text \<open>
  Optional chaining: \<open>a?.f\<close> is \<open>undefined\<close> when \<open>a\<close> is, and \<open>a?.[0]\<close> reads the
  first element of an array, which is \<open>undefined\<close> for the empty array. Neither raises.
\<close>

definition opt_chain :: "'a option \<Rightarrow> ('a \<Rightarrow> 'b option) \<Rightarrow> 'b option" where
  "opt_chain a f = (case a of None \<Rightarrow> None | Some x \<Rightarrow> f x)"

definition opt_first :: "'a list option \<Rightarrow> 'a option" where
  "opt_first a = (case a of None \<Rightarrow> None | Some [] \<Rightarrow> None | Some (x # _) \<Rightarrow> Some x)"

section \<open>The generative-AI service\<close>

text \<open>
  The shapes that \<open>analyzePhoto\<close> reads from a response of \<open>ai.models.generateContent\<close>:
  the \<open>text\<close> accessor (a string or \<open>undefined\<close>) and the path
  \<open>candidates?.[0]?.content?.parts?.[0]?.inlineData?.data\<close>, every step of which may be
  missing.
\<close>

record blob =
  data :: "jsstring option"
  mimeType :: "jsstring option"

record part =
  inlineData :: "blob option"

record content =
  parts :: "part list option"

record candidate =
  content :: "content option"

record response =
  text_of :: "jsstring option"
  candidates :: "candidate list option"

text \<open>The three request shapes that the source builds.\<close>

datatype req_part =
    InlineData jsstring jsstring
  | Str jsstring
  | Parts "jsstring list"

datatype req_contents = ContentList "req_part list" | ContentString jsstring

datatype tool = GoogleSearch

datatype Modality = AUDIO

record config =
  tools :: "tool list option"
  responseModalities :: "Modality list option"
  voiceName :: "jsstring option"

record request =
  model :: jsstring
  contents :: req_contents
  config :: "config option"

text \<open>
  A thrown value is an object whose \<open>message\<close> property is a string or missing. A service is
  what \<open>generateContent\<close> does with a request: it rejects with a thrown value or resolves
  with a response. One run of \<open>analyzePhoto\<close> sends at most three requests, to three
  different models, so a function of the request describes a run completely.
\<close>

datatype thrown = Thrown (message: "jsstring option")

type_synonym genai = "request \<Rightarrow> thrown + response"

text \<open>
  The world outside the program: the requests sent so far, in order, and the lines written
  with \<open>console.error\<close> (each line is the list of its arguments).
\<close>

datatype logged = LStr jsstring | LErr thrown

record world =
  sent :: "request list"
  console :: "logged list list"

definition generateContent :: "genai \<Rightarrow> request \<Rightarrow> world \<Rightarrow> (thrown + response) \<times> world" where
  "generateContent ai req w = (ai req, w\<lparr>sent := sent w @ [req]\<rparr>)"

definition console_error :: "logged list \<Rightarrow> world \<Rightarrow> world" where
  "console_error args w = w\<lparr>console := console w @ [args]\<rparr>"

section \<open>The orchestrator: \<open>analyzePhoto\<close>\<close>

definition identifyInstruction :: jsstring where
  "identifyInstruction = lit (''Identify the main landmark, building, or point of interest in this photo. '' @
     ''Return ONLY the name of the landmark and the city/country it is in. '' @
     ''If there is no clear landmark, describe the scene briefly.'')"

definition identifyRequest :: "jsstring \<Rightarrow> jsstring \<Rightarrow> request" where
  "identifyRequest base64Image mimeType' =
     \<lparr>model = lit ''gemini-3.1-pro-preview'',
      contents = ContentList [InlineData base64Image mimeType', Str identifyInstruction],
      config = None\<rparr>"

definition landmarkName :: "response \<Rightarrow> jsstring" where
  "landmarkName identifyResponse =
     or_string (opt_chain (text_of identifyResponse) (\<lambda>t. Some (trim t))) (lit ''Unknown Location'')"

definition promptPrefix :: jsstring where
  "promptPrefix = lit ''You are an engaging tour guide. Tell me the history and interesting facts about ''"

definition promptSuffix :: jsstring where
  "promptSuffix = lit ''. Keep it engaging, informative, and concise (around 100-150 words).''"

definition historyRequest :: "jsstring \<Rightarrow> request" where
  "historyRequest name =
     \<lparr>model = lit ''gemini-3-flash-preview'',
      contents = ContentString (promptPrefix @ name @ promptSuffix),
      config = Some \<lparr>tools = Some [GoogleSearch], responseModalities = None, voiceName = None\<rparr>\<rparr>"

definition historyText :: "response \<Rightarrow> jsstring" where
  "historyText historyResponse =
     or_string (opt_chain (text_of historyResponse) (\<lambda>t. Some (trim t))) (lit ''History not available.'')"

definition ttsRequest :: "jsstring \<Rightarrow> request" where
  "ttsRequest history' =
     \<lparr>model = lit ''gemini-2.5-flash-preview-tts'',
      contents = ContentList [Parts [history']],
      config = Some \<lparr>tools = None, responseModalities = Some [AUDIO], voiceName = Some (lit ''Kore'')\<rparr>\<rparr>"

definition audioOf :: "response \<Rightarrow> jsstring option" where
  "audioOf ttsResponse =
     or_null
       (opt_chain
          (opt_chain
             (opt_first
                (opt_chain
                   (opt_chain (opt_first (candidates ttsResponse)) content)
                   parts))
             inlineData)
          data)"

record analysis =
  landmark :: jsstring
  history :: jsstring
  audioBase64 :: "jsstring option"

definition analyzePhoto ::
  "genai \<Rightarrow> jsstring \<Rightarrow> jsstring \<Rightarrow> world \<Rightarrow> (thrown + analysis) \<times> world" where
  "analyzePhoto ai base64Image mimeType' w0 =
     (case generateContent ai (identifyRequest base64Image mimeType') w0 of
        (Inl error, w1) \<Rightarrow>
          (Inl error, console_error [LStr (lit ''Error analyzing photo:''), LErr error] w1)
      | (Inr identifyResponse, w1) \<Rightarrow>
          (case generateContent ai (historyRequest (landmarkName identifyResponse)) w1 of
             (Inl error, w2) \<Rightarrow>
               (Inl error, console_error [LStr (lit ''Error analyzing photo:''), LErr error] w2)
           | (Inr historyResponse, w2) \<Rightarrow>
               let (audioBase64', w3) =
                     (case generateContent ai (ttsRequest (historyText historyResponse)) w2 of
                        (Inl ttsError, w3) \<Rightarrow>
                          (None,
                           console_error [LStr (lit ''TTS generation failed:''), LErr ttsError] w3)
                      | (Inr ttsResponse, w3) \<Rightarrow> (audioOf ttsResponse, w3))
               in (Inr \<lparr>landmark = landmarkName identifyResponse,
                         history = historyText historyResponse,
                         audioBase64 = audioBase64'\<rparr>,
                   w3)))"

section \<open>The presentation layer: \<open>handleFileSelect\<close>\<close>

text \<open>
  The pattern \<^verbatim>\<open>/^data:(image\/[a-zA-Z+]+);base64,(.+)$/\<close>. The character class excludes
  \<open>;\<close>, so the greedy run of class characters is the only candidate for the first group;
  \<open>.\<close> matches every code unit except a line terminator, and \<open>$\<close> is the end of the
  input. The groups are returned as (group 1, group 2).
\<close>

fun strip_prefix :: "'a list \<Rightarrow> 'a list \<Rightarrow> 'a list option" where
  "strip_prefix [] s = Some s"
| "strip_prefix (p # ps) [] = None"
| "strip_prefix (p # ps) (c # cs) = (if p = c then strip_prefix ps cs else None)"

definition isSubtypeChar :: "code_unit \<Rightarrow> bool" where
  "isSubtypeChar c \<longleftrightarrow> (0x61 \<le> c \<and> c \<le> 0x7A) \<or> (0x41 \<le> c \<and> c \<le> 0x5A) \<or> c = 0x2B"

definition matchDataUrl :: "jsstring \<Rightarrow> (jsstring \<times> jsstring) option" where
  "matchDataUrl s =
     (case strip_prefix (lit ''data:'') s of
        None \<Rightarrow> None
      | Some r1 \<Rightarrow>
          (case strip_prefix (lit ''image/'') r1 of
             None \<Rightarrow> None
           | Some r2 \<Rightarrow>
               if takeWhile isSubtypeChar r2 = [] then None
               else
                 (case strip_prefix (lit '';base64,'') (dropWhile isSubtypeChar r2) of
                    None \<Rightarrow> None
                  | Some r3 \<Rightarrow>
                      if r3 \<noteq> [] \<and> list_all (\<lambda>c. \<not> isLineTerminator c) r3
                      then Some (lit ''image/'' @ takeWhile isSubtypeChar r2, r3)
                      else None)))"

datatype AppState = Idle | Analyzing | Result

text \<open>\<open>ResultData\<close> has the three fields of the analysis and the image source.\<close>

record ResultData = analysis +
  imageSrc :: jsstring

record ui =
  appState :: AppState
  result :: "ResultData option"
  error :: "jsstring option"

text \<open>
  The callback registered as \<open>reader.onloadend\<close>. It is an async function that nothing
  awaits: \<open>Inl\<close> is a rejection of its promise, which no handler of the program receives.
\<close>

definition onloadend :: "genai \<Rightarrow> jsstring \<Rightarrow> ui \<times> world \<Rightarrow> (thrown + unit) \<times> ui \<times> world" where
  "onloadend ai base64String s =
     (case s of (u, w) \<Rightarrow>
        (case matchDataUrl base64String of
           None \<Rightarrow> (Inl (Thrown (Some (lit ''Invalid image format''))), u, w)
         | Some (mimeType', base64Data) \<Rightarrow>
             (case analyzePhoto ai base64Data mimeType' w of
                (Inr a, w') \<Rightarrow>
                  (Inr (),
                   u\<lparr>result := Some \<lparr>landmark = landmark a, history = history a,
                                      audioBase64 = audioBase64 a, imageSrc = base64String\<rparr>,
                     appState := Result\<rparr>,
                   w')
              | (Inl err, w') \<Rightarrow>
                  (Inr (),
                   u\<lparr>error := Some (or_string (message err) (lit ''Failed to analyze photo'')),
                     appState := Idle\<rparr>,
                   console_error [LErr err] w'))))"

text \<open>
  The handler itself. A file is whatever the input element holds; \<open>readAsDataURL\<close> is the
  file reader: \<open>Inl\<close> when starting the read throws synchronously (the outer \<open>catch\<close>),
  \<open>Inr\<close> the string that \<open>reader.result\<close> holds when \<open>onloadend\<close> fires.
\<close>

definition handleFileSelect ::
  "genai \<Rightarrow> ('f \<Rightarrow> thrown + jsstring) \<Rightarrow> 'f option \<Rightarrow> ui \<times> world \<Rightarrow> (thrown + unit) \<times> ui \<times> world" where
  "handleFileSelect ai readAsDataURL file s =
     (case s of (u, w) \<Rightarrow>
        (case file of
           None \<Rightarrow> (Inr (), u, w)
         | Some f \<Rightarrow>
             let u1 = u\<lparr>error := None, appState := Analyzing\<rparr> in
             (case readAsDataURL f of
                Inl err \<Rightarrow>
                  (Inr (),
                   u1\<lparr>error := Some (or_string (message err) (lit ''Failed to process image'')),
                      appState := Idle\<rparr>,
                   w)
              | Inr base64String \<Rightarrow> onloadend ai base64String (u1, w))))"

section \<open>Fake services and starting states for concrete runs\<close>

definition textResponse :: "jsstring option \<Rightarrow> response" where
  "textResponse t = \<lparr>text_of = t, candidates = None\<rparr>"

definition audioPart :: "jsstring \<Rightarrow> part" where
  "audioPart d = \<lparr>inlineData = Some \<lparr>data = Some d, mimeType = Some (lit ''audio/L16'')\<rparr>\<rparr>"

definition partsResponse :: "part list \<Rightarrow> response" where
  "partsResponse ps = \<lparr>text_of = None, candidates = Some [\<lparr>content = Some \<lparr>parts = Some ps\<rparr>\<rparr>]\<rparr>"

definition fake_ai :: "(thrown + response) \<Rightarrow> (thrown + response) \<Rightarrow> (thrown + response) \<Rightarrow> genai" where
  "fake_ai r1 r2 r3 req =
     (if model req = lit ''gemini-3.1-pro-preview'' then r1
      else if model req = lit ''gemini-3-flash-preview'' then r2
      else r3)"

definition quota :: thrown where
  "quota = Thrown (Some (lit ''quota exceeded''))"

definition world0 :: world where
  "world0 = \<lparr>sent = [], console = []\<rparr>"

definition ui0 :: ui where
  "ui0 = \<lparr>appState = Idle, result = None, error = None\<rparr>"

definition fake_reader :: "jsstring \<Rightarrow> thrown + jsstring" where
  "fake_reader f = Inr f"

lemmas ws_defs = isTrimmable_def isWhiteSpace_def isLineTerminator_def

section \<open>Facts about trimming\<close>

lemma dropWhile_all_iff: "(\<forall>x\<in>set (dropWhile P s). P x) \<longleftrightarrow> (\<forall>x\<in>set s. P x)"
proof
  assume a: "\<forall>x\<in>set (dropWhile P s). P x"
  have "dropWhile P s = []"
  proof (rule ccontr)
    assume ne: "dropWhile P s \<noteq> []"
    then have "\<not> P (hd (dropWhile P s))" by (rule hd_dropWhile)
    with a ne show False by (meson hd_in_set)
  qed
  then show "\<forall>x\<in>set s. P x" by (simp add: dropWhile_eq_Nil_conv)
next
  assume "\<forall>x\<in>set s. P x"
  then show "\<forall>x\<in>set (dropWhile P s). P x" by (meson set_dropWhileD)
qed

lemma trim_Nil_iff: "trim s = [] \<longleftrightarrow> (\<forall>c\<in>set s. isTrimmable c)"
  by (simp add: trim_def dropWhile_eq_Nil_conv dropWhile_all_iff)

lemma trim_hd: "trim s \<noteq> [] \<Longrightarrow> \<not> isTrimmable (hd (trim s))"
proof -
  assume ne: "trim s \<noteq> []"
  define t where "t = dropWhile isTrimmable s"
  have t: "t = rev (dropWhile isTrimmable (rev t)) @ rev (takeWhile isTrimmable (rev t))"
    by (metis rev_append rev_rev_ident takeWhile_dropWhile_id)
  have tr: "trim s = rev (dropWhile isTrimmable (rev t))" by (simp add: trim_def t_def)
  with ne t have "hd (trim s) = hd t" by (metis hd_append2)
  moreover have "t \<noteq> []" using ne tr by auto
  then have "\<not> isTrimmable (hd t)" unfolding t_def by (rule hd_dropWhile)
  ultimately show ?thesis by simp
qed

lemma trim_last: "trim s \<noteq> [] \<Longrightarrow> \<not> isTrimmable (last (trim s))"
  unfolding trim_def by (simp add: last_rev hd_dropWhile)

lemma trim_fixed:
  assumes "s \<noteq> []" "\<not> isTrimmable (hd s)" "\<not> isTrimmable (last s)"
  shows "trim s = s"
proof -
  have d1: "dropWhile isTrimmable s = s" using assms by (cases s) auto
  have "\<not> isTrimmable (hd (rev s))" using assms by (simp add: hd_rev)
  then have d2: "dropWhile isTrimmable (rev s) = rev s" using assms(1) by (cases "rev s") auto
  show ?thesis by (simp add: trim_def d1 d2)
qed

lemma trim_idem: "trim (trim s) = trim s"
proof (cases "trim s = []")
  case True
  have "trim [] = []" by (simp add: trim_def)
  with True show ?thesis by simp
next
  case False
  then show ?thesis by (intro trim_fixed trim_hd trim_last)
qed

text \<open>The value of \<open>x.text?.trim() || fallback\<close>, spelled out by cases.\<close>

lemma trimmed_or_fallback:
  "or_string (opt_chain t (\<lambda>s. Some (trim s))) d =
     (case t of None \<Rightarrow> d | Some s \<Rightarrow> if (\<forall>c\<in>set s. isTrimmable c) then d else trim s)"
  by (simp add: or_string_def opt_chain_def trim_Nil_iff split: option.splits)

lemma trimmed_or_fallback_clean:
  assumes "d \<noteq> [] \<and> \<not> isTrimmable (hd d) \<and> \<not> isTrimmable (last d)"
    and "v = or_string (opt_chain t (\<lambda>s. Some (trim s))) d"
  shows "v \<noteq> [] \<and> \<not> isTrimmable (hd v) \<and> \<not> isTrimmable (last v)"
  using assms
  by (auto simp: or_string_def opt_chain_def trim_hd trim_last split: option.splits)

lemma unknown_location_clean:
  "lit ''Unknown Location'' \<noteq> [] \<and> \<not> isTrimmable (hd (lit ''Unknown Location''))
     \<and> \<not> isTrimmable (last (lit ''Unknown Location''))"
  by (simp add: lit_def ws_defs)

lemma history_fallback_clean:
  "lit ''History not available.'' \<noteq> [] \<and> \<not> isTrimmable (hd (lit ''History not available.''))
     \<and> \<not> isTrimmable (last (lit ''History not available.''))"
  by (simp add: lit_def ws_defs)

section \<open>The shape of a run\<close>

lemma models_distinct:
  "model (identifyRequest a b) \<noteq> model (historyRequest c)"
  "model (identifyRequest a b) \<noteq> model (ttsRequest d)"
  "model (historyRequest c) \<noteq> model (ttsRequest d)"
  by (simp_all add: identifyRequest_def historyRequest_def ttsRequest_def lit_def)

lemma analyzePhoto_identify_fails:
  "ai (identifyRequest img mt) = Inl e \<Longrightarrow>
   analyzePhoto ai img mt w =
     (Inl e, console_error [LStr (lit ''Error analyzing photo:''), LErr e]
               (w\<lparr>sent := sent w @ [identifyRequest img mt]\<rparr>))"
  by (simp add: analyzePhoto_def generateContent_def)

lemma analyzePhoto_history_fails:
  "ai (identifyRequest img mt) = Inr r1 \<Longrightarrow> ai (historyRequest (landmarkName r1)) = Inl e \<Longrightarrow>
   analyzePhoto ai img mt w =
     (Inl e, console_error [LStr (lit ''Error analyzing photo:''), LErr e]
               (w\<lparr>sent := sent w @ [identifyRequest img mt, historyRequest (landmarkName r1)]\<rparr>))"
  by (simp add: analyzePhoto_def generateContent_def)

lemma analyzePhoto_tts_fails:
  "ai (identifyRequest img mt) = Inr r1 \<Longrightarrow> ai (historyRequest (landmarkName r1)) = Inr r2 \<Longrightarrow>
   ai (ttsRequest (historyText r2)) = Inl e \<Longrightarrow>
   analyzePhoto ai img mt w =
     (Inr \<lparr>landmark = landmarkName r1, history = historyText r2, audioBase64 = None\<rparr>,
      console_error [LStr (lit ''TTS generation failed:''), LErr e]
        (w\<lparr>sent := sent w @ [identifyRequest img mt, historyRequest (landmarkName r1),
                              ttsRequest (historyText r2)]\<rparr>))"
  by (simp add: analyzePhoto_def generateContent_def)

lemma analyzePhoto_all_succeed:
  "ai (identifyRequest img mt) = Inr r1 \<Longrightarrow> ai (historyRequest (landmarkName r1)) = Inr r2 \<Longrightarrow>
   ai (ttsRequest (historyText r2)) = Inr r3 \<Longrightarrow>
   analyzePhoto ai img mt w =
     (Inr \<lparr>landmark = landmarkName r1, history = historyText r2, audioBase64 = audioOf r3\<rparr>,
      w\<lparr>sent := sent w @ [identifyRequest img mt, historyRequest (landmarkName r1),
                            ttsRequest (historyText r2)]\<rparr>)"
  by (simp add: analyzePhoto_def generateContent_def)

lemma analyzePhoto_returns:
  assumes "fst (analyzePhoto ai img mt w) = Inr res"
  obtains r1 r2 where "ai (identifyRequest img mt) = Inr r1"
    and "ai (historyRequest (landmarkName r1)) = Inr r2"
    and "landmark res = landmarkName r1" and "history res = historyText r2"
    and "audioBase64 res = None \<or> (\<exists>r3. ai (ttsRequest (historyText r2)) = Inr r3 \<and> audioBase64 res = audioOf r3)"
proof (cases "ai (identifyRequest img mt)")
  case (Inl e)
  with assms show ?thesis by (simp add: analyzePhoto_identify_fails)
next
  case r1: (Inr r1)
  show ?thesis
  proof (cases "ai (historyRequest (landmarkName r1))")
    case (Inl e)
    with assms r1 show ?thesis by (simp add: analyzePhoto_history_fails)
  next
    case r2: (Inr r2)
    show ?thesis
    proof (cases "ai (ttsRequest (historyText r2))")
      case (Inl e)
      with assms r1 r2 have "res = \<lparr>landmark = landmarkName r1, history = historyText r2, audioBase64 = None\<rparr>"
        by (simp add: analyzePhoto_tts_fails)
      with r1 r2 that show ?thesis by simp
    next
      case (Inr r3)
      with assms r1 r2 have "res = \<lparr>landmark = landmarkName r1, history = historyText r2, audioBase64 = audioOf r3\<rparr>"
        by (simp add: analyzePhoto_all_succeed)
      with r1 r2 Inr that show ?thesis by simp
    qed
  qed
qed


lemma fake_ai_simps:
  "fake_ai a b c (identifyRequest img mt) = a"
  "fake_ai a b c (historyRequest n) = b"
  "fake_ai a b c (ttsRequest h) = c"
  by (simp_all add: fake_ai_def identifyRequest_def historyRequest_def ttsRequest_def lit_def)

lemma run_blank:
  "fst (analyzePhoto (fake_ai (Inr (textResponse t1)) (Inr (textResponse t2)) (Inl quota))
          (lit ''AAAA'') (lit ''image/png'') world0) =
     Inr \<lparr>landmark = landmarkName (textResponse t1), history = historyText (textResponse t2),
          audioBase64 = None\<rparr>"
  by (simp add: analyzePhoto_tts_fails fake_ai_simps)

lemma analyzePhoto_leaves_trace: "snd (analyzePhoto ai img mt w) \<noteq> w"
proof -
  have "length (sent (snd (analyzePhoto ai img mt w))) > length (sent w)"
    by (simp add: analyzePhoto_def generateContent_def console_error_def
             split: sum.splits)
  then show ?thesis by auto
qed

section \<open>Claims about the orchestrator\<close>

text \<open>
  C1. \<open>analyzePhoto\<close> returns a result only if the identification call and the history call
  both succeed. If the identification call raises, or the history call raises, then
  \<open>analyzePhoto\<close> raises that same value and returns no result. If both succeed it returns
  a result, whatever the narration call does.
\<close>

theorem fatal_stages_abort:
  "(ai (identifyRequest img mt) = Inl e \<longrightarrow> fst (analyzePhoto ai img mt w) = Inl e) \<and>
   (ai (identifyRequest img mt) = Inr r1 \<and> ai (historyRequest (landmarkName r1)) = Inl e \<longrightarrow>
      fst (analyzePhoto ai img mt w) = Inl e) \<and>
   (ai (identifyRequest img mt) = Inr r1 \<and> ai (historyRequest (landmarkName r1)) = Inr r2 \<longrightarrow>
      (\<exists>res. fst (analyzePhoto ai img mt w) = Inr res)) \<and>
   (fst (analyzePhoto ai img mt w) = Inr res \<longrightarrow>
      (\<exists>i h. ai (identifyRequest img mt) = Inr i \<and> ai (historyRequest (landmarkName i)) = Inr h))"
proof (intro conjI impI)
  assume "ai (identifyRequest img mt) = Inl e"
  then show "fst (analyzePhoto ai img mt w) = Inl e" by (simp add: analyzePhoto_identify_fails)
next
  assume "ai (identifyRequest img mt) = Inr r1 \<and> ai (historyRequest (landmarkName r1)) = Inl e"
  then show "fst (analyzePhoto ai img mt w) = Inl e" by (simp add: analyzePhoto_history_fails)
next
  assume a: "ai (identifyRequest img mt) = Inr r1 \<and> ai (historyRequest (landmarkName r1)) = Inr r2"
  show "\<exists>res. fst (analyzePhoto ai img mt w) = Inr res"
  proof (cases "ai (ttsRequest (historyText r2))")
    case (Inl t)
    with a show ?thesis by (simp add: analyzePhoto_tts_fails)
  next
    case (Inr r3)
    with a show ?thesis by (simp add: analyzePhoto_all_succeed)
  qed
next
  assume "fst (analyzePhoto ai img mt w) = Inr res"
  then show "\<exists>i h. ai (identifyRequest img mt) = Inr i \<and> ai (historyRequest (landmarkName i)) = Inr h"
    by (rule analyzePhoto_returns) blast
qed

theorem fatal_stages_abort_witness:
  "fst (analyzePhoto (fake_ai (Inl quota) (Inr (textResponse None)) (Inr (partsResponse [])))
         (lit ''AAAA'') (lit ''image/png'') world0) = Inl quota \<and>
   fst (analyzePhoto (fake_ai (Inr (textResponse None)) (Inl quota) (Inr (partsResponse [])))
         (lit ''AAAA'') (lit ''image/png'') world0) = Inl quota \<and>
   (\<exists>res. fst (analyzePhoto (fake_ai (Inr (textResponse None)) (Inr (textResponse None)) (Inl quota))
         (lit ''AAAA'') (lit ''image/png'') world0) = Inr res)"
  using fatal_stages_abort [of "fake_ai (Inl quota) (Inr (textResponse None)) (Inr (partsResponse []))"
          "lit ''AAAA''" "lit ''image/png''" quota world0]
        fatal_stages_abort [of "fake_ai (Inr (textResponse None)) (Inl quota) (Inr (partsResponse []))"
          "lit ''AAAA''" "lit ''image/png''" quota world0 "textResponse None"]
        fatal_stages_abort [of "fake_ai (Inr (textResponse None)) (Inr (textResponse None)) (Inl quota)"
          "lit ''AAAA''" "lit ''image/png''" quota world0 "textResponse None" "textResponse None"]
  by (simp add: fake_ai_simps)

text \<open>
  C2. When the narration call raises, \<open>analyzePhoto\<close> still returns: the result carries the
  landmark label and history text of stages 1 and 2 and \<open>audioBase64 = null\<close>. The label and
  the text are the ones the run would have returned had the narration call answered with any
  response at all.
\<close>

theorem narration_failure_isolated:
  assumes "ai (identifyRequest img mt) = Inr r1"
    and "ai (historyRequest (landmarkName r1)) = Inr r2"
    and "ai (ttsRequest (historyText r2)) = Inl e"
  shows "fst (analyzePhoto ai img mt w) =
           Inr \<lparr>landmark = landmarkName r1, history = historyText r2, audioBase64 = None\<rparr> \<and>
         (\<forall>r3. \<exists>res. fst (analyzePhoto (ai(ttsRequest (historyText r2) := Inr r3)) img mt w) = Inr res \<and>
                 landmark res = landmarkName r1 \<and> history res = historyText r2)"
proof
  show "fst (analyzePhoto ai img mt w) =
           Inr \<lparr>landmark = landmarkName r1, history = historyText r2, audioBase64 = None\<rparr>"
    using assms by (simp add: analyzePhoto_tts_fails)
  show "\<forall>r3. \<exists>res. fst (analyzePhoto (ai(ttsRequest (historyText r2) := Inr r3)) img mt w) = Inr res \<and>
                 landmark res = landmarkName r1 \<and> history res = historyText r2"
  proof
    fix r3
    let ?ai = "ai(ttsRequest (historyText r2) := Inr r3)"
    have ne1: "identifyRequest img mt \<noteq> ttsRequest (historyText r2)"
      using models_distinct(2) by metis
    have ne2: "historyRequest (landmarkName r1) \<noteq> ttsRequest (historyText r2)"
      using models_distinct(3) by metis
    have "?ai (identifyRequest img mt) = Inr r1" using assms(1) ne1 by simp
    moreover have "?ai (historyRequest (landmarkName r1)) = Inr r2" using assms(2) ne2 by simp
    moreover have "?ai (ttsRequest (historyText r2)) = Inr r3" by simp
    ultimately have "analyzePhoto ?ai img mt w =
       (Inr \<lparr>landmark = landmarkName r1, history = historyText r2, audioBase64 = audioOf r3\<rparr>,
        w\<lparr>sent := sent w @ [identifyRequest img mt, historyRequest (landmarkName r1),
                            ttsRequest (historyText r2)]\<rparr>)"
      by (rule analyzePhoto_all_succeed)
    then show "\<exists>res. fst (analyzePhoto ?ai img mt w) = Inr res \<and>
                 landmark res = landmarkName r1 \<and> history res = historyText r2"
      by simp
  qed
qed

theorem narration_failure_isolated_witness:
  "fst (analyzePhoto (fake_ai (Inr (textResponse (Some (lit '' Eiffel Tower, Paris, France ''))))
                              (Inr (textResponse (Some (lit ''Built in 1889.''))))
                              (Inl quota))
         (lit ''AAAA'') (lit ''image/png'') world0) =
     Inr \<lparr>landmark = lit ''Eiffel Tower, Paris, France'', history = lit ''Built in 1889.'',
          audioBase64 = None\<rparr>"
proof -
  let ?r1 = "textResponse (Some (lit '' Eiffel Tower, Paris, France ''))"
  let ?r2 = "textResponse (Some (lit ''Built in 1889.''))"
  let ?ai = "fake_ai (Inr ?r1) (Inr ?r2) (Inl quota)"
  have l: "landmarkName ?r1 = lit ''Eiffel Tower, Paris, France''"
    by (simp add: landmarkName_def textResponse_def or_string_def opt_chain_def trim_def lit_def ws_defs)
  have h: "historyText ?r2 = lit ''Built in 1889.''"
    by (simp add: historyText_def textResponse_def or_string_def opt_chain_def trim_def lit_def ws_defs)
  have "fst (analyzePhoto ?ai (lit ''AAAA'') (lit ''image/png'') world0) =
           Inr \<lparr>landmark = landmarkName ?r1, history = historyText ?r2, audioBase64 = None\<rparr>"
    using narration_failure_isolated [of ?ai "lit ''AAAA''" "lit ''image/png''" ?r1 ?r2 quota world0]
    by (simp only: fake_ai_simps simp_thms)
  then show ?thesis by (simp only: l h)
qed

text \<open>
  C3. In every result that \<open>analyzePhoto\<close> returns, the landmark label is the literal
  \<open>Unknown Location\<close> when the identification response has no text or a text of white
  space only (the empty text included), and otherwise the response's text with the white
  space at both ends removed.
\<close>

theorem landmark_label_value:
  assumes "fst (analyzePhoto ai img mt w) = Inr res"
  shows "\<exists>r1. ai (identifyRequest img mt) = Inr r1 \<and>
           landmark res =
             (case text_of r1 of
                None \<Rightarrow> lit ''Unknown Location''
              | Some t \<Rightarrow> if (\<forall>c\<in>set t. isTrimmable c) then lit ''Unknown Location'' else trim t)"
  using assms
proof (rule analyzePhoto_returns)
  fix r1 r2
  assume "ai (identifyRequest img mt) = Inr r1" and "landmark res = landmarkName r1"
  then show ?thesis unfolding landmarkName_def trimmed_or_fallback by blast
qed

theorem landmark_label_value_witness:
  "(\<exists>res. fst (analyzePhoto (fake_ai (Inr (textResponse (Some (lit '' ''))))
                                     (Inr (textResponse None)) (Inl quota))
                 (lit ''AAAA'') (lit ''image/png'') world0) = Inr res \<and>
          landmark res = lit ''Unknown Location'') \<and>
   (\<exists>res. fst (analyzePhoto (fake_ai (Inr (textResponse (Some (lit '' Big Ben, London ''))))
                                     (Inr (textResponse None)) (Inl quota))
                 (lit ''AAAA'') (lit ''image/png'') world0) = Inr res \<and>
          landmark res = lit ''Big Ben, London'')"
proof -
  let ?blank = "fake_ai (Inr (textResponse (Some (lit '' '')))) (Inr (textResponse None)) (Inl quota)"
  let ?ben = "fake_ai (Inr (textResponse (Some (lit '' Big Ben, London ''))))
                (Inr (textResponse None)) (Inl quota)"
  obtain a where a: "fst (analyzePhoto ?blank (lit ''AAAA'') (lit ''image/png'') world0) = Inr a"
    by (simp add: run_blank)
  obtain b where b: "fst (analyzePhoto ?ben (lit ''AAAA'') (lit ''image/png'') world0) = Inr b"
    by (simp add: run_blank)
  have "landmark a = lit ''Unknown Location''"
    using landmark_label_value [OF a]
    by (simp add: fake_ai_simps textResponse_def lit_def ws_defs)
  moreover have "landmark b = lit ''Big Ben, London''"
    using landmark_label_value [OF b]
    by (simp add: fake_ai_simps textResponse_def lit_def ws_defs trim_def)
  ultimately show ?thesis using a b by blast
qed

text \<open>
  C4. In every result that \<open>analyzePhoto\<close> returns, the history text is the literal
  \<open>History not available.\<close> when the history response has no text or a text of white
  space only, and otherwise the response's text with the white space at both ends removed.
\<close>

theorem history_text_value:
  assumes "fst (analyzePhoto ai img mt w) = Inr res"
  shows "\<exists>r2. ai (historyRequest (landmark res)) = Inr r2 \<and>
           history res =
             (case text_of r2 of
                None \<Rightarrow> lit ''History not available.''
              | Some t \<Rightarrow> if (\<forall>c\<in>set t. isTrimmable c) then lit ''History not available.'' else trim t)"
  using assms
proof (rule analyzePhoto_returns)
  fix r1 r2
  assume "ai (historyRequest (landmarkName r1)) = Inr r2" and "landmark res = landmarkName r1"
    and "history res = historyText r2"
  then show ?thesis unfolding historyText_def trimmed_or_fallback by auto
qed

theorem history_text_value_witness:
  "(\<exists>res. fst (analyzePhoto (fake_ai (Inr (textResponse None))
                                     (Inr (textResponse (Some (lit ''  '')))) (Inl quota))
                 (lit ''AAAA'') (lit ''image/png'') world0) = Inr res \<and>
          history res = lit ''History not available.'') \<and>
   (\<exists>res. fst (analyzePhoto (fake_ai (Inr (textResponse None))
                                     (Inr (textResponse (Some (lit '' Built in 1889. '')))) (Inl quota))
                 (lit ''AAAA'') (lit ''image/png'') world0) = Inr res \<and>
          history res = lit ''Built in 1889.'')"
proof -
  let ?blank = "fake_ai (Inr (textResponse None)) (Inr (textResponse (Some (lit ''  '')))) (Inl quota)"
  let ?built = "fake_ai (Inr (textResponse None))
                  (Inr (textResponse (Some (lit '' Built in 1889. '')))) (Inl quota)"
  obtain a where a: "fst (analyzePhoto ?blank (lit ''AAAA'') (lit ''image/png'') world0) = Inr a"
    by (simp add: run_blank)
  obtain b where b: "fst (analyzePhoto ?built (lit ''AAAA'') (lit ''image/png'') world0) = Inr b"
    by (simp add: run_blank)
  have "history a = lit ''History not available.''"
    using history_text_value [OF a]
    by (simp add: fake_ai_simps textResponse_def lit_def ws_defs)
  moreover have "history b = lit ''Built in 1889.''"
    using history_text_value [OF b]
    by (simp add: fake_ai_simps textResponse_def lit_def ws_defs trim_def)
  ultimately show ?thesis using a b by blast
qed

text \<open>
  C9. In every result that \<open>analyzePhoto\<close> returns, the landmark and the history are
  non-empty, neither begins nor ends with a white-space code unit (so trimming leaves them
  as they are), and each is its fallback constant or the trimmed text of its response.
\<close>

theorem result_fields_clean:
  assumes "fst (analyzePhoto ai img mt w) = Inr res"
  shows "landmark res \<noteq> [] \<and> \<not> isTrimmable (hd (landmark res)) \<and>
         \<not> isTrimmable (last (landmark res)) \<and> trim (landmark res) = landmark res \<and>
         history res \<noteq> [] \<and> \<not> isTrimmable (hd (history res)) \<and>
         \<not> isTrimmable (last (history res)) \<and> trim (history res) = history res \<and>
         (landmark res = lit ''Unknown Location'' \<or>
            (\<exists>r1 t. ai (identifyRequest img mt) = Inr r1 \<and> text_of r1 = Some t \<and>
                    landmark res = trim t)) \<and>
         (history res = lit ''History not available.'' \<or>
            (\<exists>r2 t. ai (historyRequest (landmark res)) = Inr r2 \<and> text_of r2 = Some t \<and>
                    history res = trim t))"
  using assms
proof (rule analyzePhoto_returns)
  fix r1 r2
  assume i: "ai (identifyRequest img mt) = Inr r1"
    and j: "ai (historyRequest (landmarkName r1)) = Inr r2"
  assume l: "landmark res = landmarkName r1" and h: "history res = historyText r2"
  have ol: "landmark res = lit ''Unknown Location'' \<or>
            (\<exists>r1 t. ai (identifyRequest img mt) = Inr r1 \<and> text_of r1 = Some t \<and>
                    landmark res = trim t)"
    using i l by (cases "text_of r1") (auto simp: landmarkName_def or_string_def opt_chain_def)
  have oh: "history res = lit ''History not available.'' \<or>
            (\<exists>r2 t. ai (historyRequest (landmark res)) = Inr r2 \<and> text_of r2 = Some t \<and>
                    history res = trim t)"
    using j l h by (cases "text_of r2") (auto simp: historyText_def or_string_def opt_chain_def)
  have cl: "landmark res \<noteq> [] \<and> \<not> isTrimmable (hd (landmark res)) \<and> \<not> isTrimmable (last (landmark res))"
    using unknown_location_clean l unfolding landmarkName_def by (rule trimmed_or_fallback_clean)
  have ch: "history res \<noteq> [] \<and> \<not> isTrimmable (hd (history res)) \<and> \<not> isTrimmable (last (history res))"
    using history_fallback_clean h unfolding historyText_def by (rule trimmed_or_fallback_clean)
  from cl ch ol oh show ?thesis by (simp add: trim_fixed)
qed

theorem result_fields_clean_witness:
  "\<exists>res. fst (analyzePhoto (fake_ai (Inr (textResponse (Some (lit '' Big Ben, London ''))))
                                    (Inr (textResponse (Some (lit ''  '')))) (Inl quota))
                (lit ''AAAA'') (lit ''image/png'') world0) = Inr res \<and>
         landmark res \<noteq> [] \<and> trim (landmark res) = landmark res \<and>
         history res \<noteq> [] \<and> trim (history res) = history res"
proof -
  let ?ai = "fake_ai (Inr (textResponse (Some (lit '' Big Ben, London ''))))
               (Inr (textResponse (Some (lit ''  '')))) (Inl quota)"
  obtain a where a: "fst (analyzePhoto ?ai (lit ''AAAA'') (lit ''image/png'') world0) = Inr a"
    by (simp add: run_blank)
  from result_fields_clean [OF a] a show ?thesis by blast
qed

text \<open>
  C5. In a run whose identification call succeeds, the second request sent is the history
  request, and it is the only request of the run to the history model; its prompt is the fixed
  opening, then the landmark label of this run (the fallback \<open>Unknown Location\<close> when that was
  substituted), then the fixed ending, so the label occurs in it verbatim; and a result, when
  one is returned, carries that same label. In a run whose identification call raises, no
  history request is sent.
\<close>

theorem history_prompt_carries_label:
  "(ai (identifyRequest img mt) = Inr r1 \<longrightarrow>
      (\<exists>rest. sent (snd (analyzePhoto ai img mt w)) =
                 sent w @ [identifyRequest img mt, historyRequest (landmarkName r1)] @ rest \<and>
              (\<forall>q\<in>set rest. model q \<noteq> model (historyRequest (landmarkName r1)))) \<and>
      contents (historyRequest (landmarkName r1)) =
        ContentString (promptPrefix @ landmarkName r1 @ promptSuffix) \<and>
      sublist (landmarkName r1) (promptPrefix @ landmarkName r1 @ promptSuffix) \<and>
      (\<forall>res. fst (analyzePhoto ai img mt w) = Inr res \<longrightarrow> landmark res = landmarkName r1)) \<and>
   (ai (identifyRequest img mt) = Inl e \<longrightarrow>
      sent (snd (analyzePhoto ai img mt w)) = sent w @ [identifyRequest img mt])"
proof (intro conjI impI allI)
  assume i: "ai (identifyRequest img mt) = Inr r1"
  show "\<exists>rest. sent (snd (analyzePhoto ai img mt w)) =
                 sent w @ [identifyRequest img mt, historyRequest (landmarkName r1)] @ rest \<and>
              (\<forall>q\<in>set rest. model q \<noteq> model (historyRequest (landmarkName r1)))"
  proof (cases "ai (historyRequest (landmarkName r1))")
    case (Inl h)
    with i have "sent (snd (analyzePhoto ai img mt w)) =
        sent w @ [identifyRequest img mt, historyRequest (landmarkName r1)] @ []"
      by (simp add: analyzePhoto_history_fails console_error_def)
    then show ?thesis by (intro exI[of _ "[]"]) simp
  next
    case r2: (Inr r2)
    have "sent (snd (analyzePhoto ai img mt w)) =
        sent w @ [identifyRequest img mt, historyRequest (landmarkName r1)] @ [ttsRequest (historyText r2)]"
      using i r2
      by (cases "ai (ttsRequest (historyText r2))")
         (simp_all add: analyzePhoto_tts_fails analyzePhoto_all_succeed console_error_def)
    moreover have "\<forall>q\<in>set [ttsRequest (historyText r2)]. model q \<noteq> model (historyRequest (landmarkName r1))"
      using models_distinct(3) [of "landmarkName r1" "historyText r2"] by simp
    ultimately show ?thesis by blast
  qed
  show "contents (historyRequest (landmarkName r1)) =
        ContentString (promptPrefix @ landmarkName r1 @ promptSuffix)"
    by (simp add: historyRequest_def)
  show "sublist (landmarkName r1) (promptPrefix @ landmarkName r1 @ promptSuffix)"
    by (rule sublist_appendI)
next
  fix res
  assume i: "ai (identifyRequest img mt) = Inr r1" and r: "fst (analyzePhoto ai img mt w) = Inr res"
  from r show "landmark res = landmarkName r1"
  proof (rule analyzePhoto_returns)
    fix r1' r2
    assume "ai (identifyRequest img mt) = Inr r1'" and "landmark res = landmarkName r1'"
    with i show ?thesis by simp
  qed
next
  assume "ai (identifyRequest img mt) = Inl e"
  then show "sent (snd (analyzePhoto ai img mt w)) = sent w @ [identifyRequest img mt]"
    by (simp add: analyzePhoto_identify_fails console_error_def)
qed

theorem history_prompt_carries_label_witness:
  "sent (snd (analyzePhoto (fake_ai (Inr (textResponse (Some (lit ''  ''))))
                                    (Inr (textResponse None)) (Inl quota))
                (lit ''AAAA'') (lit ''image/png'') world0)) ! 1 =
     historyRequest (lit ''Unknown Location'') \<and>
   contents (historyRequest (lit ''Unknown Location'')) =
     ContentString (promptPrefix @ lit ''Unknown Location'' @ promptSuffix) \<and>
   sent (snd (analyzePhoto (fake_ai (Inl quota) (Inr (textResponse None)) (Inl quota))
                (lit ''AAAA'') (lit ''image/png'') world0)) =
     [identifyRequest (lit ''AAAA'') (lit ''image/png'')]"
proof -
  let ?r1 = "textResponse (Some (lit ''  ''))"
  let ?ai = "fake_ai (Inr ?r1) (Inr (textResponse None)) (Inl quota)"
  let ?bad = "fake_ai (Inl quota) (Inr (textResponse None)) (Inl quota)"
  have l: "landmarkName ?r1 = lit ''Unknown Location''"
    by (simp add: landmarkName_def textResponse_def or_string_def opt_chain_def trim_def lit_def ws_defs)
  have i: "?ai (identifyRequest (lit ''AAAA'') (lit ''image/png'')) = Inr ?r1"
    by (simp add: fake_ai_simps)
  have b: "?bad (identifyRequest (lit ''AAAA'') (lit ''image/png'')) = Inl quota"
    by (simp add: fake_ai_simps)
  from history_prompt_carries_label [of ?ai "lit ''AAAA''" "lit ''image/png''" ?r1 world0 quota] i
  obtain rest where
    "sent (snd (analyzePhoto ?ai (lit ''AAAA'') (lit ''image/png'') world0)) =
       sent world0 @ [identifyRequest (lit ''AAAA'') (lit ''image/png''), historyRequest (landmarkName ?r1)] @ rest"
    and c: "contents (historyRequest (landmarkName ?r1)) =
       ContentString (promptPrefix @ landmarkName ?r1 @ promptSuffix)"
    by blast
  then have "sent (snd (analyzePhoto ?ai (lit ''AAAA'') (lit ''image/png'') world0)) ! 1 =
       historyRequest (landmarkName ?r1)"
    by (simp add: world0_def)
  moreover have "sent (snd (analyzePhoto ?bad (lit ''AAAA'') (lit ''image/png'') world0)) =
       [identifyRequest (lit ''AAAA'') (lit ''image/png'')]"
    using history_prompt_carries_label [of ?bad "lit ''AAAA''" "lit ''image/png''" ?r1 world0 quota] b
    by (simp add: world0_def)
  ultimately show ?thesis using c by (simp only: l simp_thms)
qed

text \<open>
  C6. When the narration call answers, the audio of the result is the inline payload of the
  first part of the first candidate when that payload is a non-empty string, and absent
  otherwise, whatever the later parts and the later candidates carry: when the first part
  carries no inline data, when its inline data has no payload or an empty one, and when there
  is no first part or no first candidate.
\<close>

theorem audio_from_first_part:
  assumes "ai (identifyRequest img mt) = Inr r1"
    and "ai (historyRequest (landmarkName r1)) = Inr r2"
    and "ai (ttsRequest (historyText r2)) = Inr r3"
  shows "\<exists>res. fst (analyzePhoto ai img mt w) = Inr res \<and>
     (\<forall>c cs ct p ps b d.
        candidates r3 = Some (c # cs) \<and> content c = Some ct \<and> parts ct = Some (p # ps) \<and>
        inlineData p = Some b \<and> data b = Some d \<and> d \<noteq> [] \<longrightarrow> audioBase64 res = Some d) \<and>
     (\<forall>c cs ct p ps.
        candidates r3 = Some (c # cs) \<and> content c = Some ct \<and> parts ct = Some (p # ps) \<and>
        inlineData p = None \<longrightarrow> audioBase64 res = None) \<and>
     (\<forall>c cs ct p ps b.
        candidates r3 = Some (c # cs) \<and> content c = Some ct \<and> parts ct = Some (p # ps) \<and>
        inlineData p = Some b \<and> (data b = None \<or> data b = Some []) \<longrightarrow>
        audioBase64 res = None) \<and>
     (\<forall>c cs ct.
        candidates r3 = Some (c # cs) \<and> content c = Some ct \<and> (parts ct = None \<or> parts ct = Some [])
        \<longrightarrow> audioBase64 res = None) \<and>
     (\<forall>c cs. candidates r3 = Some (c # cs) \<and> content c = None \<longrightarrow> audioBase64 res = None) \<and>
     (candidates r3 = None \<or> candidates r3 = Some [] \<longrightarrow> audioBase64 res = None)"
proof -
  have "fst (analyzePhoto ai img mt w) =
          Inr \<lparr>landmark = landmarkName r1, history = historyText r2, audioBase64 = audioOf r3\<rparr>"
    using assms by (simp add: analyzePhoto_all_succeed)
  then show ?thesis
    by (auto simp: audioOf_def or_null_def opt_chain_def opt_first_def)
qed

theorem audio_from_first_part_witness:
  "(\<exists>res. fst (analyzePhoto (fake_ai (Inr (textResponse None)) (Inr (textResponse None))
                  (Inr (partsResponse [\<lparr>inlineData = None\<rparr>, audioPart (lit ''UklGRg=='')])))
                (lit ''AAAA'') (lit ''image/png'') world0) = Inr res \<and> audioBase64 res = None) \<and>
   (\<exists>res. fst (analyzePhoto (fake_ai (Inr (textResponse None)) (Inr (textResponse None))
                  (Inr (partsResponse [audioPart (lit ''UklGRg==''), audioPart (lit ''AAAA'')])))
                (lit ''AAAA'') (lit ''image/png'') world0) = Inr res \<and>
          audioBase64 res = Some (lit ''UklGRg=='')) \<and>
   (\<exists>res. fst (analyzePhoto (fake_ai (Inr (textResponse None)) (Inr (textResponse None))
                  (Inr (partsResponse [audioPart [], audioPart (lit ''QUJD'')])))
                (lit ''AAAA'') (lit ''image/png'') world0) = Inr res \<and> audioBase64 res = None) \<and>
   (\<exists>res. fst (analyzePhoto (fake_ai (Inr (textResponse None)) (Inr (textResponse None))
                  (Inr (partsResponse [\<lparr>inlineData = Some \<lparr>data = None, mimeType = None\<rparr>\<rparr>,
                                       audioPart (lit ''QUJD'')])))
                (lit ''AAAA'') (lit ''image/png'') world0) = Inr res \<and> audioBase64 res = None)"
proof -
  let ?empty = "partsResponse [audioPart [], audioPart (lit ''QUJD'')]"
  let ?nodata = "partsResponse [\<lparr>inlineData = Some \<lparr>data = None, mimeType = None\<rparr>\<rparr>,
                                audioPart (lit ''QUJD'')]"
  let ?late = "partsResponse [\<lparr>inlineData = None\<rparr>, audioPart (lit ''UklGRg=='')]"
  let ?early = "partsResponse [audioPart (lit ''UklGRg==''), audioPart (lit ''AAAA'')]"
  let ?t = "textResponse None"
  have "\<exists>res. fst (analyzePhoto (fake_ai (Inr ?t) (Inr ?t) (Inr ?late))
                (lit ''AAAA'') (lit ''image/png'') world0) = Inr res \<and> audioBase64 res = None"
    using audio_from_first_part [of "fake_ai (Inr ?t) (Inr ?t) (Inr ?late)"
            "lit ''AAAA''" "lit ''image/png''" ?t ?t ?late world0]
    by (simp add: fake_ai_simps partsResponse_def)
  moreover have "\<exists>res. fst (analyzePhoto (fake_ai (Inr ?t) (Inr ?t) (Inr ?early))
                (lit ''AAAA'') (lit ''image/png'') world0) = Inr res \<and>
          audioBase64 res = Some (lit ''UklGRg=='')"
    using audio_from_first_part [of "fake_ai (Inr ?t) (Inr ?t) (Inr ?early)"
            "lit ''AAAA''" "lit ''image/png''" ?t ?t ?early world0]
    by (simp add: fake_ai_simps partsResponse_def audioPart_def lit_def)
  moreover have "\<exists>res. fst (analyzePhoto (fake_ai (Inr ?t) (Inr ?t) (Inr ?empty))
                (lit ''AAAA'') (lit ''image/png'') world0) = Inr res \<and> audioBase64 res = None"
    using audio_from_first_part [of "fake_ai (Inr ?t) (Inr ?t) (Inr ?empty)"
            "lit ''AAAA''" "lit ''image/png''" ?t ?t ?empty world0]
    by (simp add: fake_ai_simps partsResponse_def audioPart_def)
  moreover have "\<exists>res. fst (analyzePhoto (fake_ai (Inr ?t) (Inr ?t) (Inr ?nodata))
                (lit ''AAAA'') (lit ''image/png'') world0) = Inr res \<and> audioBase64 res = None"
    using audio_from_first_part [of "fake_ai (Inr ?t) (Inr ?t) (Inr ?nodata)"
            "lit ''AAAA''" "lit ''image/png''" ?t ?t ?nodata world0]
    by (simp add: fake_ai_simps partsResponse_def)
  ultimately show ?thesis by blast
qed



section \<open>Claims about the presentation layer\<close>

text \<open>
  C7. When the data URL of the selected file does not match the pattern, the callback raises
  an error with the message \<open>Invalid image format\<close> and \<open>analyzePhoto\<close> is not called: the
  world is left exactly as it was, with no request sent, whereas every call of
  \<open>analyzePhoto\<close> changes the world. The error is the rejection of the callback's promise;
  the interface is left as the handler set it before the read.
\<close>

theorem malformed_input_fails_fast:
  assumes "readAsDataURL f = Inr s" and "matchDataUrl s = None"
  shows "handleFileSelect ai readAsDataURL (Some f) (u, w) =
           (Inl (Thrown (Some (lit ''Invalid image format''))),
            u\<lparr>error := None, appState := Analyzing\<rparr>, w) \<and>
         (\<forall>img mt. snd (analyzePhoto ai img mt w) \<noteq> w)"
  using assms by (simp add: handleFileSelect_def onloadend_def Let_def analyzePhoto_leaves_trace)

theorem malformed_input_fails_fast_witness:
  "handleFileSelect (fake_ai (Inl quota) (Inl quota) (Inl quota)) fake_reader
     (Some (lit ''data:text/plain;base64,aGk='')) (ui0, world0) =
     (Inl (Thrown (Some (lit ''Invalid image format''))),
      ui0\<lparr>error := None, appState := Analyzing\<rparr>, world0)"
proof -
  have m: "matchDataUrl (lit ''data:text/plain;base64,aGk='') = None"
    by (simp add: matchDataUrl_def lit_def)
  have r: "fake_reader (lit ''data:text/plain;base64,aGk='') = Inr (lit ''data:text/plain;base64,aGk='')"
    by (simp add: fake_reader_def)
  from malformed_input_fails_fast [where readAsDataURL = fake_reader and u = ui0 and w = world0, OF r m] show ?thesis by blast
qed

text \<open>
  C8. When the data URL matches and \<open>analyzePhoto\<close> rejects, the handler ends with the
  interface idle, a non-empty error text stored (the message of the thrown value, or
  \<open>Failed to analyze photo\<close> when it has none) and the stored result untouched. When
  \<open>analyzePhoto\<close> resolves, the handler stores the result (the three fields of the analysis
  with the data URL as image source) and ends with the interface in the result state.
\<close>

theorem ui_follows_orchestrator:
  assumes "readAsDataURL f = Inr s" and "matchDataUrl s = Some (mt, img)"
  shows "(fst (analyzePhoto ai img mt w) = Inl e \<longrightarrow>
            (\<exists>msg w'. handleFileSelect ai readAsDataURL (Some f) (u, w) =
                        (Inr (), u\<lparr>error := Some msg, appState := Idle\<rparr>, w') \<and>
                      msg \<noteq> [] \<and>
                      msg = or_string (message e) (lit ''Failed to analyze photo''))) \<and>
         (fst (analyzePhoto ai img mt w) = Inr a \<longrightarrow>
            (\<exists>w'. handleFileSelect ai readAsDataURL (Some f) (u, w) =
                    (Inr (),
                     u\<lparr>error := None,
                       result := Some \<lparr>landmark = landmark a, history = history a,
                                        audioBase64 = audioBase64 a, imageSrc = s\<rparr>,
                       appState := Result\<rparr>,
                     w')))"
proof (intro conjI impI)
  assume "fst (analyzePhoto ai img mt w) = Inl e"
  then obtain w1 where r: "analyzePhoto ai img mt w = (Inl e, w1)" by (cases "analyzePhoto ai img mt w") auto
  have ne: "or_string (message e) (lit ''Failed to analyze photo'') \<noteq> []"
    by (simp add: or_string_def lit_def split: option.splits)
  have "handleFileSelect ai readAsDataURL (Some f) (u, w) =
          (Inr (), u\<lparr>error := Some (or_string (message e) (lit ''Failed to analyze photo'')),
                     appState := Idle\<rparr>, console_error [LErr e] w1)"
    using assms r by (simp add: handleFileSelect_def onloadend_def Let_def)
  with ne show "\<exists>msg w'. handleFileSelect ai readAsDataURL (Some f) (u, w) =
                        (Inr (), u\<lparr>error := Some msg, appState := Idle\<rparr>, w') \<and>
                      msg \<noteq> [] \<and>
                      msg = or_string (message e) (lit ''Failed to analyze photo'')"
    by blast
next
  assume "fst (analyzePhoto ai img mt w) = Inr a"
  then obtain w1 where r: "analyzePhoto ai img mt w = (Inr a, w1)" by (cases "analyzePhoto ai img mt w") auto
  have "handleFileSelect ai readAsDataURL (Some f) (u, w) =
          (Inr (),
                     u\<lparr>error := None,
                       result := Some \<lparr>landmark = landmark a, history = history a,
                                        audioBase64 = audioBase64 a, imageSrc = s\<rparr>,
                       appState := Result\<rparr>, w1)"
    using assms r by (simp add: handleFileSelect_def onloadend_def Let_def)
  then show "\<exists>w'. handleFileSelect ai readAsDataURL (Some f) (u, w) =
                    (Inr (),
                     u\<lparr>error := None,
                       result := Some \<lparr>landmark = landmark a, history = history a,
                                        audioBase64 = audioBase64 a, imageSrc = s\<rparr>,
                       appState := Result\<rparr>,
                     w')"
    by blast
qed

theorem ui_follows_orchestrator_witness:
  "(\<exists>w'. handleFileSelect (fake_ai (Inl quota) (Inl quota) (Inl quota)) fake_reader
           (Some (lit ''data:image/png;base64,AAAA'')) (ui0, world0) =
           (Inr (), ui0\<lparr>error := Some (lit ''quota exceeded''), appState := Idle\<rparr>, w')) \<and>
   (\<exists>w'. handleFileSelect (fake_ai (Inr (textResponse None)) (Inr (textResponse None)) (Inl quota))
           fake_reader (Some (lit ''data:image/png;base64,AAAA'')) (ui0, world0) =
           (Inr (),
            ui0\<lparr>error := None,
                result := Some \<lparr>landmark = lit ''Unknown Location'',
                                 history = lit ''History not available.'',
                                 audioBase64 = None,
                                 imageSrc = lit ''data:image/png;base64,AAAA''\<rparr>,
                appState := Result\<rparr>,
            w'))"
proof -
  let ?url = "lit ''data:image/png;base64,AAAA''"
  let ?bad = "fake_ai (Inl quota) (Inl quota) (Inl quota)"
  let ?t = "textResponse None"
  let ?ok = "fake_ai (Inr ?t) (Inr ?t) (Inl quota)"
  let ?a = "\<lparr>landmark = landmarkName ?t, history = historyText ?t, audioBase64 = None\<rparr>"
  have m: "matchDataUrl ?url = Some (lit ''image/png'', lit ''AAAA'')"
    by (simp add: matchDataUrl_def lit_def isSubtypeChar_def isLineTerminator_def)
  have r: "fake_reader ?url = Inr ?url" by (simp add: fake_reader_def)
  have l: "landmarkName ?t = lit ''Unknown Location''"
    by (simp add: landmarkName_def textResponse_def or_string_def opt_chain_def)
  have h: "historyText ?t = lit ''History not available.''"
    by (simp add: historyText_def textResponse_def or_string_def opt_chain_def)
  have b: "fst (analyzePhoto ?bad (lit ''AAAA'') (lit ''image/png'') world0) = Inl quota"
    by (simp add: analyzePhoto_identify_fails fake_ai_simps)
  have g: "fst (analyzePhoto ?ok (lit ''AAAA'') (lit ''image/png'') world0) = Inr ?a"
    by (simp add: run_blank)
  have q: "or_string (message quota) (lit ''Failed to analyze photo'') = lit ''quota exceeded''"
    by (simp add: quota_def or_string_def lit_def)
  have "\<exists>w'. handleFileSelect ?bad fake_reader (Some ?url) (ui0, world0) =
           (Inr (), ui0\<lparr>error := Some (lit ''quota exceeded''), appState := Idle\<rparr>, w')"
    using ui_follows_orchestrator [where readAsDataURL = fake_reader and ai = ?bad and w = world0
            and e = quota and u = ui0, OF r m] b q by auto
  moreover have "\<exists>w'. handleFileSelect ?ok fake_reader (Some ?url) (ui0, world0) =
           (Inr (),
            ui0\<lparr>error := None,
                result := Some \<lparr>landmark = landmarkName ?t, history = historyText ?t,
                                 audioBase64 = None, imageSrc = ?url\<rparr>,
                appState := Result\<rparr>,
            w')"
    using ui_follows_orchestrator [where readAsDataURL = fake_reader and ai = ?ok and w = world0
            and a = ?a and u = ui0, OF r m] g by simp
  ultimately show ?thesis by (simp only: l h simp_thms)
qed

end
